theory Spec2Isabelle
  imports Main
begin

section \<open>Data model of the instance handler\<close>

text \<open>
  Modelled from the spec: the package \<open>types\<close> (\<open>InstanceState\<close>, \<open>InstanceSpec\<close>,
  \<open>InstanceStatus\<close>) is imported by the handler but its declaration is not part of the
  sources at hand. The state is a named string type in Go: the five named constants are
  the states of the spec, and \<open>InstanceStateOther s\<close> stands for any other string value
  (the handler's \<open>default:\<close> branch exists for those).
\<close>

datatype InstanceState =
    InstanceStateRunning
  | InstanceStateStopped
  | InstanceStateStarting
  | InstanceStateStopping
  | InstanceStateError
  | InstanceStateOther string

text \<open>
  Modelled from the spec: the fields of \<open>types.InstanceSpec\<close> and \<open>types.InstanceStatus\<close>
  that the handler reads or writes.
\<close>

record InstanceSpec =
  DesireState :: InstanceState
  NodeID :: string
  EngineImage :: string

record InstanceStatus =
  CurrentState :: InstanceState
  Started :: bool
  IP :: string
  CurrentImage :: string
  NodeBootID :: string

text \<open>
  The pod of \<open>k8s.io/api/core/v1\<close>, reduced to the fields the handler reads:
  \<open>pod.Name\<close>, \<open>pod.DeletionTimestamp\<close> (a pointer: \<open>None\<close> is nil),
  \<open>pod.Spec.NodeName\<close>, \<open>pod.Status.Phase\<close>, \<open>pod.Status.ContainerStatuses\<close> and
  \<open>pod.Status.PodIP\<close>. The phase is a string type too; \<open>PodPhaseOther\<close> covers values
  outside the five constants of the API (the empty phase of a pod that was just created,
  for one).
\<close>

datatype PodPhase =
    PodPending
  | PodRunning
  | PodSucceeded
  | PodFailed
  | PodUnknown
  | PodPhaseOther string

record ContainerStatus =
  Ready :: bool

record Pod =
  Name :: string
  DeletionTimestamp :: "nat option"
  Spec_NodeName :: string
  Status_Phase :: PodPhase
  Status_ContainerStatuses :: "ContainerStatus list"
  Status_PodIP :: string

record Node =
  Status_NodeInfo_BootID :: string

text \<open>
  Errors are values. \<open>ErrNotFound\<close> and \<open>ErrAPI\<close> are the errors the cluster API hands
  back (the second stands for every failure that is not a not-found); the others are
  the ones the handler builds itself with \<open>fmt.Errorf\<close>, or gets from
  \<open>meta.Accessor\<close> and the pod-spec creator. \<open>PanicNilPointer\<close> is the panic of
  a read through a nil pod.
\<close>

datatype error =
    ErrNotRuntimeObject
  | ErrNotObject
  | ErrNotFound string
  | ErrAPI string
  | ErrPodSpec string
  | ErrUnknownDesireState InstanceState
  | ErrNotPinnedDown string string
  | ErrEmptyRequestPath string
  | PanicNilPointer

text \<open>\<open>apierrors.IsNotFound\<close>: false on a nil error.\<close>

fun IsNotFound :: "error option \<Rightarrow> bool" where
  "IsNotFound (Some (ErrNotFound _)) = True"
| "IsNotFound _ = False"

text \<open>
  The object handed to the handler is an \<open>interface{}\<close>. It either is a
  \<open>runtime.Object\<close> or it is not; of a \<open>runtime.Object\<close> only the name that
  \<open>meta.Accessor\<close> finds matters, \<open>None\<close> when the accessor fails.
\<close>

type_synonym runtime_Object = "string option"

datatype Object = Opaque | Runtime runtime_Object

section \<open>Collaborators and the calls issued on them\<close>

text \<open>
  The handler owns no state: it holds a pod lister, a cluster client, a pod-spec
  creator and an event recorder. Their answers are the fields of the record below
  (the namespace is fixed and left out), and every call the handler issues is appended
  to a list, in the order of the source. Output of \<open>logrus\<close> is not recorded.
\<close>

record InstanceHandler =
  pLister_Pods_Get :: "string \<Rightarrow> error + Pod"
  podCreator_CreatePodSpec :: "Object \<Rightarrow> error + Pod"
  kubeClient_Pods_Create :: "Pod \<Rightarrow> error + Pod"
  kubeClient_Pods_Delete :: "string \<Rightarrow> error option"
  kubeClient_Pods_GetLogs_Path :: "string \<Rightarrow> string"
  kubeClient_Pods_GetLogs_DoRaw :: "string \<Rightarrow> error + string"
  kubeClient_Nodes_Get :: "string \<Rightarrow> error + Node"

text \<open>
  Modelled from the spec: the event reasons are constants of the package that are
  declared outside the sources at hand. The event sink takes a reason code with every
  event; the four codes the handler passes are kept apart here. The message of an event
  is reduced to the name of the pod it is about.
\<close>

datatype EventType = EventTypeNormal | EventTypeWarning

datatype EventReason =
    EventReasonFailedStarting
  | EventReasonStart
  | EventReasonFailedStopping
  | EventReasonStop

datatype Call =
    CallGetPod string
  | CallCreatePodSpec Object
  | CallCreatePod Pod
  | CallDeletePod string
  | CallGetLogs string int
  | CallGetNode string
  | CallEvent EventType EventReason string

definition CrashLogsTaillines :: int where
  "CrashLogsTaillines = 100"

section \<open>The status projection\<close>

text \<open>\<open>GetNodeBootIDForPod\<close>: the boot ID of the node the pod is assigned to.\<close>

definition GetNodeBootIDForPod :: "InstanceHandler \<Rightarrow> Pod \<Rightarrow> (error + string) \<times> Call list" where
  "GetNodeBootIDForPod h pod =
     (let nodeName = Spec_NodeName pod in
      (case kubeClient_Nodes_Get h nodeName of
         Inl err \<Rightarrow> Inl err
       | Inr node \<Rightarrow> Inr (Status_NodeInfo_BootID node),
       [CallGetNode nodeName]))"

text \<open>
  The loop over \<open>pod.Status.ContainerStatuses\<close> leaves \<open>syncStatusWithPod\<close> at the
  first container that is not ready; \<open>containerNotReady\<close> says whether it does.
\<close>

primrec containerNotReady :: "ContainerStatus list \<Rightarrow> bool" where
  "containerNotReady [] = False"
| "containerNotReady (st # rest) = (if \<not> Ready st then True else containerNotReady rest)"

text \<open>
  \<open>syncStatusWithPod\<close> mutates \<open>status\<close> in place and returns nothing; here it returns
  the status it leaves and the calls it made.
\<close>

definition syncStatusWithPod ::
  "InstanceHandler \<Rightarrow> Pod option \<Rightarrow> InstanceSpec \<Rightarrow> InstanceStatus \<Rightarrow> InstanceStatus \<times> Call list" where
  "syncStatusWithPod h pod spec status =
     (case pod of
        None \<Rightarrow>
          (if Started status
           then (status\<lparr>CurrentState := InstanceStateError, IP := '''', CurrentImage := ''''\<rparr>, [])
           else (status\<lparr>CurrentState := InstanceStateStopped, IP := '''', CurrentImage := ''''\<rparr>, []))
      | Some p \<Rightarrow>
          if DeletionTimestamp p \<noteq> None
          then (status\<lparr>CurrentState := InstanceStateStopping, IP := '''', CurrentImage := ''''\<rparr>, [])
          else
            (case Status_Phase p of
               PodPending \<Rightarrow>
                 (status\<lparr>CurrentState := InstanceStateStarting, IP := '''', CurrentImage := ''''\<rparr>, [])
             | PodRunning \<Rightarrow>
                 if containerNotReady (Status_ContainerStatuses p)
                 then (status\<lparr>CurrentState := InstanceStateStarting, IP := '''', CurrentImage := ''''\<rparr>, [])
                 else
                   (let s1 = status\<lparr>CurrentState := InstanceStateRunning\<rparr>;
                        s2 = (if IP s1 \<noteq> Status_PodIP p then s1\<lparr>IP := Status_PodIP p\<rparr> else s1);
                        s3 = (if CurrentImage s2 = '''' then s2\<lparr>CurrentImage := EngineImage spec\<rparr> else s2);
                        r = GetNodeBootIDForPod h p
                    in (case fst r of
                          Inl err \<Rightarrow> s3
                        | Inr nodeBootID \<Rightarrow> s3\<lparr>NodeBootID := nodeBootID\<rparr>,
                        snd r))
             | _ \<Rightarrow>
                 (status\<lparr>CurrentState := InstanceStateError, IP := '''', CurrentImage := ''''\<rparr>, [])))"

section \<open>Helpers of the reconciler\<close>

definition getNameFromObj :: "runtime_Object \<Rightarrow> error + string" where
  "getNameFromObj obj = (case obj of None \<Rightarrow> Inl ErrNotObject | Some name \<Rightarrow> Inr name)"

definition getPod :: "InstanceHandler \<Rightarrow> string \<Rightarrow> error + Pod" where
  "getPod h podName = pLister_Pods_Get h podName"

definition getPodLogs :: "InstanceHandler \<Rightarrow> string \<Rightarrow> int \<Rightarrow> (error + string) \<times> Call list" where
  "getPodLogs h podName taillines =
     (if kubeClient_Pods_GetLogs_Path h podName = ''''
      then (Inl (ErrEmptyRequestPath podName), [])
      else (kubeClient_Pods_GetLogs_DoRaw h podName, [CallGetLogs podName taillines]))"

definition createPodForObject ::
  "InstanceHandler \<Rightarrow> runtime_Object \<Rightarrow> Pod \<Rightarrow> (error + Pod) \<times> Call list" where
  "createPodForObject h obj pod =
     (case kubeClient_Pods_Create h pod of
        Inl err \<Rightarrow>
          (Inl err, [CallCreatePod pod, CallEvent EventTypeWarning EventReasonFailedStarting (Name pod)])
      | Inr p \<Rightarrow>
          (Inr p, [CallCreatePod pod, CallEvent EventTypeNormal EventReasonStart (Name pod)]))"

text \<open>
  \<open>deletePodForObject\<close> returns nil in both branches that follow the delete call: a
  failed delete is reported as a warning event only.
\<close>

definition deletePodForObject ::
  "InstanceHandler \<Rightarrow> runtime_Object \<Rightarrow> error option \<times> Call list" where
  "deletePodForObject h obj =
     (case getNameFromObj obj of
        Inl err \<Rightarrow> (Some err, [])
      | Inr podName \<Rightarrow>
          (case kubeClient_Pods_Delete h podName of
             Some err \<Rightarrow>
               (None, [CallDeletePod podName, CallEvent EventTypeWarning EventReasonFailedStopping podName])
           | None \<Rightarrow>
               (None, [CallDeletePod podName, CallEvent EventTypeNormal EventReasonStop podName])))"

section \<open>The reconciler\<close>

text \<open>
  What a call of \<open>ReconcileInstanceState\<close> leaves behind: the error it returns
  (\<open>None\<close> is nil), the spec and the status as mutated through the pointers it was
  given (they are mutated also when an error is returned), and the calls it issued.
\<close>

record Outcome =
  ret :: "error option"
  spec_after :: InstanceSpec
  status_after :: InstanceStatus
  calls :: "Call list"

text \<open>
  Lines 132 to 138: fetch the pod; a not-found answer is a nil pod, any other error is
  returned.
\<close>

definition getPodOrNil :: "InstanceHandler \<Rightarrow> string \<Rightarrow> error + Pod option" where
  "getPodOrNil h podName =
     (case getPod h podName of
        Inl err \<Rightarrow> if \<not> IsNotFound (Some err) then Inl err else Inr None
      | Inr pod \<Rightarrow> Inr (Some pod))"

text \<open>The test \<open>pod != nil && pod.DeletionTimestamp == nil\<close> of both branches.\<close>

definition podIsLive :: "Pod option \<Rightarrow> bool" where
  "podIsLive pod = (case pod of None \<Rightarrow> False | Some p \<Rightarrow> DeletionTimestamp p = None)"

text \<open>
  Lines 140 to 167: the switch on \<open>spec.DesireState\<close>. It yields the error it returns
  with, or the pod reference that goes on to the projection, together with the status as
  mutated so far and the calls issued.
\<close>

definition applyDesireState ::
  "InstanceHandler \<Rightarrow> Object \<Rightarrow> runtime_Object \<Rightarrow> InstanceSpec \<Rightarrow> InstanceStatus \<Rightarrow> Pod option
     \<Rightarrow> (error + Pod option) \<times> InstanceStatus \<times> Call list" where
  "applyDesireState h obj runtimeObj spec status pod =
     (case DesireState spec of
        InstanceStateRunning \<Rightarrow>
          if podIsLive pod then (Inr pod, status\<lparr>Started := True\<rparr>, [])
          else if CurrentState status \<noteq> InstanceStateStopped then (Inr pod, status, [])
          else
            (case podCreator_CreatePodSpec h obj of
               Inl err \<Rightarrow> (Inl err, status, [CallCreatePodSpec obj])
             | Inr podSpec \<Rightarrow>
                 (case createPodForObject h runtimeObj podSpec of
                    (Inl err, cs) \<Rightarrow> (Inl err, status, CallCreatePodSpec obj # cs)
                  | (Inr created, cs) \<Rightarrow> (Inr (Some created), status, CallCreatePodSpec obj # cs)))
      | InstanceStateStopped \<Rightarrow>
          if podIsLive pod
          then
            (case deletePodForObject h runtimeObj of
               (Some err, cs) \<Rightarrow> (Inl err, status, cs)
             | (None, cs) \<Rightarrow> (Inr pod, status\<lparr>Started := False, NodeBootID := ''''\<rparr>, cs))
          else (Inr pod, status\<lparr>Started := False, NodeBootID := ''''\<rparr>, [])
      | _ \<Rightarrow> (Inl (ErrUnknownDesireState (DesireState spec)), status, []))"

text \<open>
  Lines 171 to 192: what follows the projection. With the state Running the node is
  pinned or checked; \<open>pod.Spec.NodeName\<close> is read there, which panics on a nil pod.
  With the state Error and a pod at hand the logs of the pod are fetched, and the result
  only goes to the log.
\<close>

definition checkAfterSync ::
  "InstanceHandler \<Rightarrow> Pod option \<Rightarrow> InstanceSpec \<Rightarrow> InstanceStatus
     \<Rightarrow> error option \<times> InstanceSpec \<times> InstanceStatus \<times> Call list" where
  "checkAfterSync h pod spec status =
     (if CurrentState status = InstanceStateRunning
      then
        (case pod of
           None \<Rightarrow> (Some PanicNilPointer, spec, status, [])
         | Some p \<Rightarrow>
             if NodeID spec = '''' then (None, spec\<lparr>NodeID := Spec_NodeName p\<rparr>, status, [])
             else if NodeID spec \<noteq> Spec_NodeName p
             then (Some (ErrNotPinnedDown (Name p) (NodeID spec)), spec,
                   status\<lparr>CurrentState := InstanceStateError, IP := '''', NodeBootID := ''''\<rparr>, [])
             else (None, spec, status, []))
      else
        (case pod of
           None \<Rightarrow> (None, spec, status, [])
         | Some p \<Rightarrow>
             if CurrentState status = InstanceStateError
             then (None, spec, status, snd (getPodLogs h (Name p) CrashLogsTaillines))
             else (None, spec, status, [])))"

definition ReconcileInstanceState ::
  "InstanceHandler \<Rightarrow> Object \<Rightarrow> InstanceSpec \<Rightarrow> InstanceStatus \<Rightarrow> Outcome" where
  "ReconcileInstanceState h obj spec status =
     (case obj of
        Opaque \<Rightarrow>
          \<lparr>ret = Some ErrNotRuntimeObject, spec_after = spec, status_after = status, calls = []\<rparr>
      | Runtime runtimeObj \<Rightarrow>
          (case getNameFromObj runtimeObj of
             Inl err \<Rightarrow> \<lparr>ret = Some err, spec_after = spec, status_after = status, calls = []\<rparr>
           | Inr podName \<Rightarrow>
               (case getPodOrNil h podName of
                  Inl err \<Rightarrow>
                    \<lparr>ret = Some err, spec_after = spec, status_after = status,
                     calls = [CallGetPod podName]\<rparr>
                | Inr fetched \<Rightarrow>
                    (case applyDesireState h obj runtimeObj spec status fetched of
                       (Inl err, status1, cs1) \<Rightarrow>
                         \<lparr>ret = Some err, spec_after = spec, status_after = status1,
                          calls = CallGetPod podName # cs1\<rparr>
                     | (Inr pod, status1, cs1) \<Rightarrow>
                         (let synced = syncStatusWithPod h pod spec status1;
                              checked = checkAfterSync h pod spec (fst synced)
                          in \<lparr>ret = fst checked,
                              spec_after = fst (snd checked),
                              status_after = fst (snd (snd checked)),
                              calls = CallGetPod podName # cs1 @ snd synced @ snd (snd (snd checked))\<rparr>)))))"

text \<open>
  \<open>DeleteInstanceForObject\<close>: nothing to do when the pod is gone or already asked to
  stop, a delete otherwise.
\<close>

definition DeleteInstanceForObject ::
  "InstanceHandler \<Rightarrow> runtime_Object \<Rightarrow> error option \<times> Call list" where
  "DeleteInstanceForObject h obj =
     (case getNameFromObj obj of
        Inl err \<Rightarrow> (Some err, [])
      | Inr podName \<Rightarrow>
          (case getPod h podName of
             Inl err \<Rightarrow>
               if \<not> IsNotFound (Some err) then (Some err, [CallGetPod podName])
               else (None, [CallGetPod podName])
           | Inr pod \<Rightarrow>
               if DeletionTimestamp pod \<noteq> None then (None, [CallGetPod podName])
               else (let d = deletePodForObject h obj
                     in (fst d, CallGetPod podName # snd d))))"

section \<open>Repeated cycles and the calls of interest\<close>

text \<open>
  The caller runs one call per cycle on the same in-memory spec and status. Under an
  unchanged observation (the same answers of the collaborators) \<open>n\<close> cycles are the
  list of their outcomes, each call starting from the spec and status the previous one
  left.
\<close>

fun reconcileCycles ::
  "InstanceHandler \<Rightarrow> Object \<Rightarrow> nat \<Rightarrow> InstanceSpec \<Rightarrow> InstanceStatus \<Rightarrow> Outcome list" where
  "reconcileCycles h obj 0 spec status = []"
| "reconcileCycles h obj (Suc n) spec status =
     (let r = ReconcileInstanceState h obj spec status
      in r # reconcileCycles h obj n (spec_after r) (status_after r))"

text \<open>
  A creation is attempted once the pod-spec creator is asked for a spec; it is issued
  with the create call of the cluster client.
\<close>

fun isCreate :: "Call \<Rightarrow> bool" where
  "isCreate (CallCreatePodSpec _) = True"
| "isCreate (CallCreatePod _) = True"
| "isCreate _ = False"

fun isDelete :: "Call \<Rightarrow> bool" where
  "isDelete (CallDeletePod _) = True"
| "isDelete _ = False"

section \<open>Concrete inputs\<close>

text \<open>
  A pod in Running phase with its one container ready, scheduled on \<open>node-b\<close>; a node
  that answers the boot-ID lookup; handlers whose collaborators give the same answer
  whatever they are asked; a status as a running instance has it.
\<close>

definition readyPod :: Pod where
  "readyPod =
     \<lparr>Name = ''vol-e-0'', DeletionTimestamp = None, Spec_NodeName = ''node-b'',
      Status_Phase = PodRunning, Status_ContainerStatuses = [\<lparr>Ready = True\<rparr>],
      Status_PodIP = ''10.0.0.5''\<rparr>"

definition bootedNode :: Node where
  "bootedNode = \<lparr>Status_NodeInfo_BootID = ''boot-2''\<rparr>"

definition handlerWith ::
  "(error + Pod) \<Rightarrow> error option \<Rightarrow> (error + Node) \<Rightarrow> InstanceHandler" where
  "handlerWith fetched deleted node =
     \<lparr>pLister_Pods_Get = (\<lambda>podName. fetched),
      podCreator_CreatePodSpec =
        (\<lambda>obj. Inr (readyPod\<lparr>Spec_NodeName := '''', Status_Phase := PodPhaseOther '''',
                              Status_ContainerStatuses := [], Status_PodIP := ''''\<rparr>)),
      kubeClient_Pods_Create = (\<lambda>pod. Inr pod),
      kubeClient_Pods_Delete = (\<lambda>podName. deleted),
      kubeClient_Pods_GetLogs_Path = (\<lambda>podName. ''''),
      kubeClient_Pods_GetLogs_DoRaw = (\<lambda>podName. Inr ''''),
      kubeClient_Nodes_Get = (\<lambda>nodeName. node)\<rparr>"

definition liveHandler :: InstanceHandler where
  "liveHandler = handlerWith (Inr readyPod) None (Inr bootedNode)"

definition emptyHandler :: InstanceHandler where
  "emptyHandler = handlerWith (Inl (ErrNotFound ''vol-e-0'')) None (Inr bootedNode)"

definition deleteFailsHandler :: InstanceHandler where
  "deleteFailsHandler =
     handlerWith (Inr readyPod) (Some (ErrAPI ''connection refused'')) (Inr bootedNode)"

definition specOf :: "InstanceState \<Rightarrow> string \<Rightarrow> InstanceSpec" where
  "specOf desire node = \<lparr>DesireState = desire, NodeID = node, EngineImage = ''img-2''\<rparr>"

definition runningStatus :: InstanceStatus where
  "runningStatus =
     \<lparr>CurrentState = InstanceStateRunning, Started = True, IP = ''10.0.0.5'',
      CurrentImage = ''img-1'', NodeBootID = ''boot-1''\<rparr>"

definition stoppedStatus :: InstanceStatus where
  "stoppedStatus =
     \<lparr>CurrentState = InstanceStateStopped, Started = False, IP = '''',
      CurrentImage = '''', NodeBootID = ''''\<rparr>"

section \<open>Facts about the projection\<close>

lemmas example_defs =
  readyPod_def bootedNode_def handlerWith_def liveHandler_def emptyHandler_def
  specOf_def runningStatus_def stoppedStatus_def

text \<open>The loop finds a container that is not ready exactly when not all are ready.\<close>

lemma containerNotReady_iff: "containerNotReady cs = (\<not> list_all Ready cs)"
  by (induction cs) auto

text \<open>The projection yields Running only from a pod.\<close>

lemma sync_Running_pod:
  "CurrentState (fst (syncStatusWithPod h pod spec status)) = InstanceStateRunning \<Longrightarrow> pod \<noteq> None"
  by (auto simp: syncStatusWithPod_def split: option.splits if_splits)

text \<open>
  C6. For every call of \<open>syncStatusWithPod\<close> with a nil pod, the state it leaves is
  Error when \<open>status.Started\<close> is true and Stopped otherwise, and \<open>status.IP\<close> and
  \<open>status.CurrentImage\<close> are the empty string in both cases.
\<close>

theorem C6_sync_nil_pod:
  "CurrentState (fst (syncStatusWithPod h None spec status)) =
     (if Started status then InstanceStateError else InstanceStateStopped)
   \<and> IP (fst (syncStatusWithPod h None spec status)) = ''''
   \<and> CurrentImage (fst (syncStatusWithPod h None spec status)) = ''''"
  by (simp add: syncStatusWithPod_def)

theorem C6_sync_nil_pod_witness:
  "CurrentState (fst (syncStatusWithPod emptyHandler None (specOf InstanceStateRunning '''') runningStatus))
     = InstanceStateError
   \<and> IP (fst (syncStatusWithPod emptyHandler None (specOf InstanceStateRunning '''') runningStatus)) = ''''
   \<and> CurrentImage (fst (syncStatusWithPod emptyHandler None (specOf InstanceStateRunning '''') runningStatus)) = ''''"
  using C6_sync_nil_pod [of emptyHandler "specOf InstanceStateRunning ''''" runningStatus]
  by (simp add: runningStatus_def)

text \<open>
  C5, as stated, fails: a pod in Running phase with every container ready that carries a
  deletion timestamp is projected to Stopping, and the recorded image \<open>img-1\<close> is
  cleared.
\<close>

theorem C5_deleting_pod_clears_image:
  "Status_Phase (readyPod\<lparr>DeletionTimestamp := Some 1\<rparr>) = PodRunning
   \<and> list_all Ready (Status_ContainerStatuses (readyPod\<lparr>DeletionTimestamp := Some 1\<rparr>))
   \<and> CurrentImage runningStatus = ''img-1''
   \<and> CurrentImage (fst (syncStatusWithPod liveHandler (Some (readyPod\<lparr>DeletionTimestamp := Some 1\<rparr>))
        (specOf InstanceStateRunning '''') runningStatus)) = ''''"
  by (simp add: syncStatusWithPod_def example_defs)

text \<open>
  C5, amended. \<open>CurrentImage\<close> is a first-start latch: for every call of
  \<open>syncStatusWithPod\<close> with a pod that has no deletion timestamp, is in Running phase
  and has all its containers ready, a \<open>status.CurrentImage\<close> that was not empty before
  the call is unchanged after it (whatever \<open>spec.EngineImage\<close> is), and an empty one
  becomes \<open>spec.EngineImage\<close>.
\<close>

theorem C5_current_image_latch:
  assumes "DeletionTimestamp p = None"
    and "Status_Phase p = PodRunning"
    and "list_all Ready (Status_ContainerStatuses p)"
  shows "CurrentImage (fst (syncStatusWithPod h (Some p) spec status)) =
           (if CurrentImage status = '''' then EngineImage spec else CurrentImage status)"
  using assms
  by (simp add: syncStatusWithPod_def containerNotReady_iff Let_def split: sum.splits)

theorem C5_current_image_latch_witness:
  "CurrentImage (fst (syncStatusWithPod liveHandler (Some readyPod)
      (specOf InstanceStateRunning '''') runningStatus)) = ''img-1''
   \<and> CurrentImage (fst (syncStatusWithPod liveHandler (Some readyPod)
      (specOf InstanceStateRunning '''') stoppedStatus)) = ''img-2''"
  using C5_current_image_latch [of readyPod liveHandler "specOf InstanceStateRunning ''''" runningStatus]
    C5_current_image_latch [of readyPod liveHandler "specOf InstanceStateRunning ''''" stoppedStatus]
  by (simp add: example_defs)

text \<open>
  C9, as stated, fails: a pod in Running phase with every container ready, on a node
  that answers the lookup with \<open>boot-2\<close>, but carrying a deletion timestamp, is
  projected to Stopping before any lookup is made, and \<open>NodeBootID\<close> stays
  \<open>boot-1\<close> instead of becoming the boot ID of the node.
\<close>

theorem C9_deleting_pod_keeps_boot_id:
  "Status_Phase (readyPod\<lparr>DeletionTimestamp := Some 1\<rparr>) = PodRunning
   \<and> list_all Ready (Status_ContainerStatuses (readyPod\<lparr>DeletionTimestamp := Some 1\<rparr>))
   \<and> fst (GetNodeBootIDForPod liveHandler (readyPod\<lparr>DeletionTimestamp := Some 1\<rparr>)) = Inr ''boot-2''
   \<and> NodeBootID runningStatus = ''boot-1''
   \<and> NodeBootID (fst (syncStatusWithPod liveHandler (Some (readyPod\<lparr>DeletionTimestamp := Some 1\<rparr>))
        (specOf InstanceStateRunning '''') runningStatus)) = ''boot-1''
   \<and> snd (syncStatusWithPod liveHandler (Some (readyPod\<lparr>DeletionTimestamp := Some 1\<rparr>))
        (specOf InstanceStateRunning '''') runningStatus) = []"
  by (simp add: syncStatusWithPod_def GetNodeBootIDForPod_def example_defs)

text \<open>
  C9, amended. \<open>syncStatusWithPod\<close> never clears \<open>NodeBootID\<close>: after every call it
  has the value it had before, except when the pod has no deletion timestamp, is in
  Running phase with all containers ready and the node client answers the boot-ID lookup
  with a node, and then it is the boot ID of that node. The condition is one of the
  inputs alone: in that case the lookup is made, for the node of the pod, and it is the
  only call. In particular a projection into Error leaves \<open>NodeBootID\<close> as it was, and
  so does a lookup that fails, which does not fail the projection: the state is Running
  and the IP is the one of the pod.
\<close>

theorem C9_sync_node_boot_id:
  "NodeBootID (fst (syncStatusWithPod h pod spec status)) =
     (case pod of
        None \<Rightarrow> NodeBootID status
      | Some p \<Rightarrow>
          if DeletionTimestamp p = None \<and> Status_Phase p = PodRunning
             \<and> list_all Ready (Status_ContainerStatuses p)
          then (case kubeClient_Nodes_Get h (Spec_NodeName p) of
                  Inl err \<Rightarrow> NodeBootID status
                | Inr node \<Rightarrow> Status_NodeInfo_BootID node)
          else NodeBootID status)
   \<and> (\<forall>p. pod = Some p \<and> DeletionTimestamp p = None \<and> Status_Phase p = PodRunning
          \<and> list_all Ready (Status_ContainerStatuses p)
        \<longrightarrow> snd (syncStatusWithPod h pod spec status) = [CallGetNode (Spec_NodeName p)])
   \<and> (CurrentState (fst (syncStatusWithPod h pod spec status)) = InstanceStateError
        \<longrightarrow> NodeBootID (fst (syncStatusWithPod h pod spec status)) = NodeBootID status)
   \<and> (\<forall>p err. pod = Some p \<and> DeletionTimestamp p = None \<and> Status_Phase p = PodRunning
          \<and> list_all Ready (Status_ContainerStatuses p)
          \<and> kubeClient_Nodes_Get h (Spec_NodeName p) = Inl err
        \<longrightarrow> NodeBootID (fst (syncStatusWithPod h pod spec status)) = NodeBootID status
            \<and> CurrentState (fst (syncStatusWithPod h pod spec status)) = InstanceStateRunning
            \<and> IP (fst (syncStatusWithPod h pod spec status)) = Status_PodIP p)"
proof (cases pod)
  case None
  then show ?thesis
    by (simp add: syncStatusWithPod_def)
next
  case (Some p)
  show ?thesis
  proof (cases "DeletionTimestamp p = None \<and> Status_Phase p = PodRunning
      \<and> list_all Ready (Status_ContainerStatuses p)")
    case True
    then show ?thesis
      using Some
      by (cases "kubeClient_Nodes_Get h (Spec_NodeName p)")
        (simp_all add: syncStatusWithPod_def GetNodeBootIDForPod_def containerNotReady_iff Let_def)
  next
    case False
    then show ?thesis
      using Some
      by (cases "Status_Phase p")
        (auto simp: syncStatusWithPod_def containerNotReady_iff)
  qed
qed

theorem C9_sync_node_boot_id_witness:
  "NodeBootID (fst (syncStatusWithPod liveHandler (Some readyPod)
      (specOf InstanceStateRunning '''') runningStatus)) = ''boot-2''
   \<and> NodeBootID (fst (syncStatusWithPod liveHandler (Some readyPod)
      (specOf InstanceStateRunning '''') stoppedStatus)) = ''boot-2''
   \<and> snd (syncStatusWithPod liveHandler (Some readyPod)
      (specOf InstanceStateRunning '''') stoppedStatus) = [CallGetNode ''node-b'']
   \<and> NodeBootID (fst (syncStatusWithPod (handlerWith (Inr readyPod) None (Inl (ErrAPI ''timeout'')))
      (Some readyPod) (specOf InstanceStateRunning '''') runningStatus)) = ''boot-1''
   \<and> CurrentState (fst (syncStatusWithPod (handlerWith (Inr readyPod) None (Inl (ErrAPI ''timeout'')))
      (Some readyPod) (specOf InstanceStateRunning '''') runningStatus)) = InstanceStateRunning
   \<and> NodeBootID (fst (syncStatusWithPod liveHandler (Some (readyPod\<lparr>Status_Phase := PodFailed\<rparr>))
      (specOf InstanceStateRunning '''') runningStatus)) = ''boot-1''
   \<and> CurrentState (fst (syncStatusWithPod liveHandler (Some (readyPod\<lparr>Status_Phase := PodFailed\<rparr>))
      (specOf InstanceStateRunning '''') runningStatus)) = InstanceStateError"
proof -
  have live: "DeletionTimestamp readyPod = None \<and> Status_Phase readyPod = PodRunning
      \<and> list_all Ready (Status_ContainerStatuses readyPod)"
    by (simp add: readyPod_def)
  have failed: "Status_Phase (readyPod\<lparr>Status_Phase := PodFailed\<rparr>) \<noteq> PodRunning"
    by simp
  have answer: "kubeClient_Nodes_Get liveHandler (Spec_NodeName readyPod) = Inr bootedNode"
    and refusal: "kubeClient_Nodes_Get (handlerWith (Inr readyPod) None (Inl (ErrAPI ''timeout'')))
        (Spec_NodeName readyPod) = Inl (ErrAPI ''timeout'')"
    by (simp_all add: liveHandler_def handlerWith_def)
  from
    C9_sync_node_boot_id [of liveHandler "Some readyPod" "specOf InstanceStateRunning ''''" runningStatus]
    C9_sync_node_boot_id [of liveHandler "Some readyPod" "specOf InstanceStateRunning ''''" stoppedStatus]
    C9_sync_node_boot_id [of "handlerWith (Inr readyPod) None (Inl (ErrAPI ''timeout''))"
      "Some readyPod" "specOf InstanceStateRunning ''''" runningStatus]
    C9_sync_node_boot_id [of liveHandler "Some (readyPod\<lparr>Status_Phase := PodFailed\<rparr>)"
      "specOf InstanceStateRunning ''''" runningStatus]
    live failed answer refusal
  show ?thesis
    by (simp add: syncStatusWithPod_def GetNodeBootIDForPod_def example_defs)
qed

section \<open>Facts about the reconciler\<close>

text \<open>A call on a named object whose fetch does not fail, unfolded up to the switch.\<close>

lemma Reconcile_fetched:
  "getPodOrNil h nm = Inr fetched \<Longrightarrow>
   ReconcileInstanceState h (Runtime (Some nm)) spec status =
     (case applyDesireState h (Runtime (Some nm)) (Some nm) spec status fetched of
        (Inl err, status1, cs1) \<Rightarrow>
          \<lparr>ret = Some err, spec_after = spec, status_after = status1, calls = CallGetPod nm # cs1\<rparr>
      | (Inr pod, status1, cs1) \<Rightarrow>
          (let synced = syncStatusWithPod h pod spec status1;
               checked = checkAfterSync h pod spec (fst synced)
           in \<lparr>ret = fst checked, spec_after = fst (snd checked),
               status_after = fst (snd (snd checked)),
               calls = CallGetPod nm # cs1 @ snd synced @ snd (snd (snd checked))\<rparr>))"
  by (simp add: ReconcileInstanceState_def getNameFromObj_def)

text \<open>The switch with desired state Running and a live pod.\<close>

lemma applyDesireState_Running_live:
  "DesireState spec = InstanceStateRunning \<Longrightarrow> DeletionTimestamp p = None \<Longrightarrow>
   applyDesireState h obj runtimeObj spec status (Some p) = (Inr (Some p), status\<lparr>Started := True\<rparr>, [])"
  by (simp add: applyDesireState_def podIsLive_def)

text \<open>The switch with desired state Stopped and no live pod.\<close>

lemma applyDesireState_Stopped_absent:
  "DesireState spec = InstanceStateStopped \<Longrightarrow>
   applyDesireState h obj runtimeObj spec status None =
     (Inr None, status\<lparr>Started := False, NodeBootID := ''''\<rparr>, [])"
  by (simp add: applyDesireState_def podIsLive_def)

text \<open>The switch with a desired state that is neither Running nor Stopped.\<close>

lemma applyDesireState_unknown:
  "DesireState spec \<noteq> InstanceStateRunning \<Longrightarrow> DesireState spec \<noteq> InstanceStateStopped \<Longrightarrow>
   applyDesireState h obj runtimeObj spec status pod =
     (Inl (ErrUnknownDesireState (DesireState spec)), status, [])"
  by (simp add: applyDesireState_def split: InstanceState.splits)

text \<open>The fetch step in terms of the answer of the lister.\<close>

lemma getPodOrNil_Some: "getPodOrNil h nm = Inr (Some p) \<longleftrightarrow> pLister_Pods_Get h nm = Inr p"
  by (simp add: getPodOrNil_def getPod_def split: sum.splits)

lemma getPodOrNil_None:
  "getPodOrNil h nm = Inr None \<longleftrightarrow> (\<exists>err. pLister_Pods_Get h nm = Inl err \<and> IsNotFound (Some err))"
  by (auto simp: getPodOrNil_def getPod_def split: sum.splits)

text \<open>
  The read of \<open>pod.Spec.NodeName\<close> after the projection never meets a nil pod: the
  projection of a nil pod is Error or Stopped.
\<close>

lemma checkAfterSync_no_panic:
  "fst (checkAfterSync h pod spec (fst (syncStatusWithPod h pod spec status))) \<noteq> Some PanicNilPointer"
proof (cases pod)
  case None
  then show ?thesis
    by (simp add: checkAfterSync_def syncStatusWithPod_def)
next
  case (Some p)
  then show ?thesis
    by (simp add: checkAfterSync_def split: option.splits)
qed

text \<open>Neither the projection nor the checks after it issue a create or a delete.\<close>

lemma sync_calls:
  "c \<in> set (snd (syncStatusWithPod h pod spec status)) \<Longrightarrow> \<not> isCreate c \<and> \<not> isDelete c"
  by (auto simp: syncStatusWithPod_def GetNodeBootIDForPod_def Let_def
      split: option.splits if_splits PodPhase.splits)

lemma checkAfterSync_calls:
  "c \<in> set (snd (snd (snd (checkAfterSync h pod spec status)))) \<Longrightarrow> \<not> isCreate c \<and> \<not> isDelete c"
  by (auto simp: checkAfterSync_def getPodLogs_def split: option.splits if_splits)

lemma checkAfterSync_Started:
  "Started (fst (snd (snd (checkAfterSync h pod spec status)))) = Started status"
  by (simp add: checkAfterSync_def split: option.splits)

lemma sync_Started:
  "Started (fst (syncStatusWithPod h pod spec status)) = Started status"
  by (simp add: syncStatusWithPod_def GetNodeBootIDForPod_def Let_def
      split: option.splits PodPhase.splits sum.splits)

lemma checkAfterSync_DesireState:
  "DesireState (fst (snd (checkAfterSync h pod spec status))) = DesireState spec"
  by (simp add: checkAfterSync_def split: option.splits)

lemma Reconcile_DesireState:
  "DesireState (spec_after (ReconcileInstanceState h obj spec status)) = DesireState spec"
  by (simp add: ReconcileInstanceState_def checkAfterSync_DesireState Let_def
      split: Object.splits sum.splits prod.splits option.splits)

lemma Reconcile_Running_live:
  assumes "DesireState spec = InstanceStateRunning"
    and "getPodOrNil h nm = Inr (Some p)"
    and "DeletionTimestamp p = None"
  shows "\<not> list_ex isCreate (calls (ReconcileInstanceState h (Runtime (Some nm)) spec status))
       \<and> Started (status_after (ReconcileInstanceState h (Runtime (Some nm)) spec status))"
  using assms sync_calls checkAfterSync_calls
  by (auto simp: Reconcile_fetched applyDesireState_Running_live Let_def list_ex_iff
      checkAfterSync_Started sync_Started)

lemma cycles_Running_live:
  assumes "DesireState spec = InstanceStateRunning"
    and "getPodOrNil h nm = Inr (Some p)"
    and "DeletionTimestamp p = None"
  shows "r \<in> set (reconcileCycles h (Runtime (Some nm)) n spec status) \<Longrightarrow>
         \<not> list_ex isCreate (calls r) \<and> Started (status_after r)"
  using assms(1)
proof (induction n arbitrary: spec status)
  case 0
  then show ?case by simp
next
  case (Suc n)
  let ?r = "ReconcileInstanceState h (Runtime (Some nm)) spec status"
  from Suc.prems(1) consider "r = ?r"
    | "r \<in> set (reconcileCycles h (Runtime (Some nm)) n (spec_after ?r) (status_after ?r))"
    by (auto simp: Let_def)
  then show ?case
  proof cases
    case 1
    then show ?thesis
      using Reconcile_Running_live [OF Suc.prems(2) assms(2) assms(3)] by simp
  next
    case 2
    moreover have "DesireState (spec_after ?r) = InstanceStateRunning"
      using Suc.prems(2) by (simp add: Reconcile_DesireState)
    ultimately show ?thesis using Suc.IH by blast
  qed
qed

lemma create_only_when_Stopped:
  "list_ex isCreate (calls (ReconcileInstanceState h obj spec status)) \<Longrightarrow>
   CurrentState status = InstanceStateStopped \<and> DesireState spec = InstanceStateRunning"
  using sync_calls checkAfterSync_calls
  by (auto simp: ReconcileInstanceState_def applyDesireState_def deletePodForObject_def
      createPodForObject_def getNameFromObj_def Let_def list_ex_iff
      split: Object.splits sum.splits prod.splits option.splits if_splits InstanceState.splits)

section \<open>Properties of the reconciler\<close>

lemmas reconcile_defs =
  ReconcileInstanceState_def getNameFromObj_def getPodOrNil_def getPod_def applyDesireState_def
  podIsLive_def createPodForObject_def deletePodForObject_def syncStatusWithPod_def
  GetNodeBootIDForPod_def checkAfterSync_def getPodLogs_def

lemma getPodOrNil_liveHandler: "getPodOrNil liveHandler nm = Inr (Some readyPod)"
  by (simp add: getPodOrNil_def getPod_def example_defs)

lemma getPodOrNil_emptyHandler: "getPodOrNil emptyHandler nm = Inr None"
  by (simp add: getPodOrNil_def getPod_def example_defs)

text \<open>
  C1. For every call of \<open>ReconcileInstanceState\<close> in which the projection yields the
  state Running while \<open>spec.NodeID\<close> is not empty and differs from the node name of
  the pod, the call leaves \<open>status.CurrentState = Error\<close>, \<open>status.IP\<close> and
  \<open>status.NodeBootID\<close> empty, and returns an error. The call reaches the projection
  with the pod and the status that the switch on the desired state hands on.
\<close>

theorem C1_node_pin_violation:
  assumes "getPodOrNil h nm = Inr fetched"
    and "applyDesireState h (Runtime (Some nm)) (Some nm) spec status fetched = (Inr pod, status1, cs1)"
    and "CurrentState (fst (syncStatusWithPod h pod spec status1)) = InstanceStateRunning"
    and "pod = Some p"
    and "NodeID spec \<noteq> ''''"
    and "NodeID spec \<noteq> Spec_NodeName p"
  shows "CurrentState (status_after (ReconcileInstanceState h (Runtime (Some nm)) spec status)) = InstanceStateError
       \<and> IP (status_after (ReconcileInstanceState h (Runtime (Some nm)) spec status)) = ''''
       \<and> NodeBootID (status_after (ReconcileInstanceState h (Runtime (Some nm)) spec status)) = ''''
       \<and> ret (ReconcileInstanceState h (Runtime (Some nm)) spec status) \<noteq> None"
  using assms by (simp add: Reconcile_fetched checkAfterSync_def Let_def)

theorem C1_node_pin_violation_witness:
  "CurrentState (fst (syncStatusWithPod liveHandler (Some readyPod) (specOf InstanceStateRunning ''node-a'')
       (stoppedStatus\<lparr>Started := True\<rparr>))) = InstanceStateRunning
   \<and> NodeID (specOf InstanceStateRunning ''node-a'') = ''node-a''
   \<and> Spec_NodeName readyPod = ''node-b''
   \<and> status_after (ReconcileInstanceState liveHandler (Runtime (Some ''vol-e-0''))
        (specOf InstanceStateRunning ''node-a'') stoppedStatus)
       = \<lparr>CurrentState = InstanceStateError, Started = True, IP = '''', CurrentImage = ''img-2'',
          NodeBootID = ''''\<rparr>
   \<and> ret (ReconcileInstanceState liveHandler (Runtime (Some ''vol-e-0''))
        (specOf InstanceStateRunning ''node-a'') stoppedStatus)
       = Some (ErrNotPinnedDown ''vol-e-0'' ''node-a'')"
proof -
  have a: "applyDesireState liveHandler (Runtime (Some ''vol-e-0'')) (Some ''vol-e-0'')
        (specOf InstanceStateRunning ''node-a'') stoppedStatus (Some readyPod)
      = (Inr (Some readyPod), stoppedStatus\<lparr>Started := True\<rparr>, [])"
    by (simp add: applyDesireState_Running_live specOf_def readyPod_def)
  have s: "CurrentState (fst (syncStatusWithPod liveHandler (Some readyPod)
        (specOf InstanceStateRunning ''node-a'') (stoppedStatus\<lparr>Started := True\<rparr>))) = InstanceStateRunning"
    by (simp add: syncStatusWithPod_def GetNodeBootIDForPod_def example_defs)
  have n1: "NodeID (specOf InstanceStateRunning ''node-a'') \<noteq> ''''"
    by (simp add: specOf_def)
  have n2: "NodeID (specOf InstanceStateRunning ''node-a'') \<noteq> Spec_NodeName readyPod"
    by (simp add: specOf_def readyPod_def)
  from C1_node_pin_violation [OF getPodOrNil_liveHandler a s refl n1 n2] s
  show ?thesis
    by (simp add: reconcile_defs example_defs)
qed

lemma Reconcile_absent_Running_Error:
  assumes "DesireState spec = InstanceStateRunning" "getPodOrNil h nm = Inr None"
    "Started status" "CurrentState status = InstanceStateError"
  shows "ReconcileInstanceState h (Runtime (Some nm)) spec status =
     \<lparr>ret = None, spec_after = spec,
      status_after = status\<lparr>CurrentState := InstanceStateError, IP := '''', CurrentImage := ''''\<rparr>,
      calls = [CallGetPod nm]\<rparr>"
  using assms
  by (simp add: Reconcile_fetched applyDesireState_def podIsLive_def syncStatusWithPod_def checkAfterSync_def)

lemma cycles_absent_Running_Error:
  assumes "DesireState spec = InstanceStateRunning" "getPodOrNil h nm = Inr None"
  shows "Started status \<Longrightarrow> CurrentState status = InstanceStateError \<Longrightarrow>
       r \<in> set (reconcileCycles h (Runtime (Some nm)) n spec status) \<Longrightarrow>
       \<not> list_ex isCreate (calls r) \<and> CurrentState (status_after r) = InstanceStateError
       \<and> Started (status_after r)"
proof (induction n arbitrary: status)
  case 0
  then show ?case by simp
next
  case (Suc n)
  let ?status' = "status\<lparr>CurrentState := InstanceStateError, IP := '''', CurrentImage := ''''\<rparr>"
  have step: "ReconcileInstanceState h (Runtime (Some nm)) spec status =
     \<lparr>ret = None, spec_after = spec, status_after = ?status', calls = [CallGetPod nm]\<rparr>"
    using assms Suc.prems by (simp add: Reconcile_absent_Running_Error)
  from Suc.prems(3) consider
    "r = ReconcileInstanceState h (Runtime (Some nm)) spec status"
    | "r \<in> set (reconcileCycles h (Runtime (Some nm)) n spec ?status')"
    by (auto simp: step Let_def)
  then show ?case
  proof cases
    case 1
    then show ?thesis using Suc.prems by (simp add: step)
  next
    case 2
    then show ?thesis using Suc.IH [of ?status'] Suc.prems by simp
  qed
qed

text \<open>
  C2. There is no self-heal from Error: for every call of \<open>ReconcileInstanceState\<close>
  with \<open>spec.DesireState = Running\<close>, the fetched pod absent, \<open>status.Started\<close> true
  and \<open>status.CurrentState = Error\<close>, no pod creation is issued, and after the call the
  state is still Error and \<open>Started\<close> still true; the same holds for each of any number
  of further cycles under the same observation.
\<close>

theorem C2_no_self_heal_from_error:
  assumes "DesireState spec = InstanceStateRunning"
    and "getPodOrNil h nm = Inr None"
    and "Started status"
    and "CurrentState status = InstanceStateError"
  shows "\<not> list_ex isCreate (calls (ReconcileInstanceState h (Runtime (Some nm)) spec status))
       \<and> CurrentState (status_after (ReconcileInstanceState h (Runtime (Some nm)) spec status))
           = InstanceStateError
       \<and> Started (status_after (ReconcileInstanceState h (Runtime (Some nm)) spec status))
       \<and> (\<forall>r \<in> set (reconcileCycles h (Runtime (Some nm)) n spec status).
             \<not> list_ex isCreate (calls r)
             \<and> CurrentState (status_after r) = InstanceStateError
             \<and> Started (status_after r))"
  using assms cycles_absent_Running_Error [OF assms(1) assms(2) assms(3) assms(4)]
  by (simp add: Reconcile_absent_Running_Error)

theorem C2_no_self_heal_from_error_witness:
  "list_all (\<lambda>r. \<not> list_ex isCreate (calls r)
              \<and> CurrentState (status_after r) = InstanceStateError \<and> Started (status_after r))
     (reconcileCycles emptyHandler (Runtime (Some ''vol-e-0'')) (Suc (Suc 0))
        (specOf InstanceStateRunning ''node-a'') (runningStatus\<lparr>CurrentState := InstanceStateError\<rparr>))
   \<and> length (reconcileCycles emptyHandler (Runtime (Some ''vol-e-0'')) (Suc (Suc 0))
        (specOf InstanceStateRunning ''node-a'') (runningStatus\<lparr>CurrentState := InstanceStateError\<rparr>)) = 2"
proof -
  have d: "DesireState (specOf InstanceStateRunning ''node-a'') = InstanceStateRunning"
    by (simp add: specOf_def)
  have s: "Started (runningStatus\<lparr>CurrentState := InstanceStateError\<rparr>)"
    by (simp add: runningStatus_def)
  have c: "CurrentState (runningStatus\<lparr>CurrentState := InstanceStateError\<rparr>) = InstanceStateError"
    by simp
  from C2_no_self_heal_from_error [OF d getPodOrNil_emptyHandler s c, of "''vol-e-0''" "Suc (Suc 0)"]
  show ?thesis
    by (simp add: list_all_iff Let_def)
qed

text \<open>
  C3, as stated, fails: with the desired state Error (neither Running nor Stopped) the
  call returns the error of the \<open>default:\<close> branch and the state of the status is the
  one it was called with, Stopped here.
\<close>

theorem C3_unknown_desire_state_keeps_state:
  "DesireState (specOf InstanceStateError '''') \<noteq> InstanceStateRunning
   \<and> DesireState (specOf InstanceStateError '''') \<noteq> InstanceStateStopped
   \<and> ret (ReconcileInstanceState emptyHandler (Runtime (Some ''vol-e-0''))
        (specOf InstanceStateError '''') stoppedStatus)
       = Some (ErrUnknownDesireState InstanceStateError)
   \<and> CurrentState (status_after (ReconcileInstanceState emptyHandler (Runtime (Some ''vol-e-0''))
        (specOf InstanceStateError '''') stoppedStatus)) = InstanceStateStopped"
  by (simp add: reconcile_defs example_defs)

text \<open>
  C3, amended. For every call of \<open>ReconcileInstanceState\<close> with \<open>spec.DesireState\<close>
  neither Running nor Stopped, the call returns an error, which is the error that names
  the unknown desired state whenever the name of the object is found and the fetch of
  the pod does not fail; the status and the spec are left as they were, and no create
  and no delete is issued.
\<close>

theorem C3_unknown_desire_state:
  assumes "DesireState spec \<noteq> InstanceStateRunning"
    and "DesireState spec \<noteq> InstanceStateStopped"
  shows "ret (ReconcileInstanceState h obj spec status) \<noteq> None
       \<and> status_after (ReconcileInstanceState h obj spec status) = status
       \<and> spec_after (ReconcileInstanceState h obj spec status) = spec
       \<and> \<not> list_ex isCreate (calls (ReconcileInstanceState h obj spec status))
       \<and> \<not> list_ex isDelete (calls (ReconcileInstanceState h obj spec status))
       \<and> (\<forall>nm fetched. obj = Runtime (Some nm) \<and> getPodOrNil h nm = Inr fetched \<longrightarrow>
            ret (ReconcileInstanceState h obj spec status)
              = Some (ErrUnknownDesireState (DesireState spec)))"
  using assms
  by (auto simp: ReconcileInstanceState_def getNameFromObj_def applyDesireState_unknown
      split: Object.splits option.splits sum.splits)

theorem C3_unknown_desire_state_witness:
  "ret (ReconcileInstanceState liveHandler (Runtime (Some ''vol-e-0''))
        (specOf (InstanceStateOther ''paused'') ''node-b'') runningStatus)
     = Some (ErrUnknownDesireState (InstanceStateOther ''paused''))
   \<and> status_after (ReconcileInstanceState liveHandler (Runtime (Some ''vol-e-0''))
        (specOf (InstanceStateOther ''paused'') ''node-b'') runningStatus) = runningStatus
   \<and> calls (ReconcileInstanceState liveHandler (Runtime (Some ''vol-e-0''))
        (specOf (InstanceStateOther ''paused'') ''node-b'') runningStatus) = [CallGetPod ''vol-e-0'']"
proof -
  have d1: "DesireState (specOf (InstanceStateOther ''paused'') ''node-b'') \<noteq> InstanceStateRunning"
    and d2: "DesireState (specOf (InstanceStateOther ''paused'') ''node-b'') \<noteq> InstanceStateStopped"
    by (simp_all add: specOf_def)
  from C3_unknown_desire_state [OF d1 d2, of liveHandler "Runtime (Some ''vol-e-0'')" runningStatus]
  show ?thesis
    by (simp add: reconcile_defs example_defs)
qed

text \<open>
  The errors of the fetch and of the create are returned as they are.
\<close>

lemma fetch_error_returned:
  "pLister_Pods_Get h nm = Inl err \<Longrightarrow> \<not> IsNotFound (Some err) \<Longrightarrow>
   ret (ReconcileInstanceState h (Runtime (Some nm)) spec status) = Some err"
  by (simp add: ReconcileInstanceState_def getNameFromObj_def getPodOrNil_def getPod_def)

lemma applyDesireState_create_error:
  assumes "kubeClient_Pods_Create h podSpec = Inl err"
    and "CallCreatePod podSpec \<in> set (snd (snd (applyDesireState h obj runtimeObj spec status pod)))"
  shows "fst (applyDesireState h obj runtimeObj spec status pod) = Inl err"
proof (cases "DesireState spec")
  case InstanceStateRunning
  then show ?thesis
    using assms
    by (auto simp: applyDesireState_def createPodForObject_def split: if_splits sum.splits)
next
  case InstanceStateStopped
  then show ?thesis
    using assms
    by (auto simp: applyDesireState_def deletePodForObject_def
        split: if_splits sum.splits option.splits)
qed (use assms in \<open>simp_all add: applyDesireState_def\<close>)

lemma create_error_returned:
  assumes "kubeClient_Pods_Create h podSpec = Inl err"
    and "getPodOrNil h nm = Inr fetched"
    and "CallCreatePod podSpec \<in> set (calls (ReconcileInstanceState h (Runtime (Some nm)) spec status))"
  shows "ret (ReconcileInstanceState h (Runtime (Some nm)) spec status) = Some err"
proof -
  obtain res status1 cs1 where a:
    "applyDesireState h (Runtime (Some nm)) (Some nm) spec status fetched = (res, status1, cs1)"
    by (cases "applyDesireState h (Runtime (Some nm)) (Some nm) spec status fetched") auto
  have ns: "CallCreatePod podSpec \<notin> set (snd (syncStatusWithPod h' pod' spec' status'))"
    for h' pod' spec' status'
    using sync_calls [of "CallCreatePod podSpec" h' pod' spec' status'] by auto
  have nc: "CallCreatePod podSpec \<notin> set (snd (snd (snd (checkAfterSync h' pod' spec' status'))))"
    for h' pod' spec' status'
    using checkAfterSync_calls [of "CallCreatePod podSpec" h' pod' spec' status'] by auto
  have "CallCreatePod podSpec \<in> set cs1"
    using assms(3)
    by (cases res) (simp_all add: Reconcile_fetched [OF assms(2)] a Let_def ns nc)
  then have "res = Inl err"
    using applyDesireState_create_error [OF assms(1), of "Runtime (Some nm)" "Some nm" spec status fetched]
    by (simp add: a)
  then show ?thesis
    by (simp add: Reconcile_fetched [OF assms(2)] a)
qed

text \<open>
  C4 holds for the fetch and the create and fails for the delete. With the desired state
  Stopped, a live pod and a delete call that the cluster refuses, the delete is issued,
  the refusal becomes a warning event, and the call returns nil: \<open>deletePodForObject\<close>
  returns nil where \<open>createPodForObject\<close> returns the error.
\<close>

theorem C4_delete_failure_not_returned:
  "kubeClient_Pods_Delete deleteFailsHandler ''vol-e-0'' = Some (ErrAPI ''connection refused'')
   \<and> calls (ReconcileInstanceState deleteFailsHandler (Runtime (Some ''vol-e-0''))
        (specOf InstanceStateStopped ''node-b'') runningStatus)
       = [CallGetPod ''vol-e-0'', CallDeletePod ''vol-e-0'',
          CallEvent EventTypeWarning EventReasonFailedStopping ''vol-e-0'', CallGetNode ''node-b'']
   \<and> ret (ReconcileInstanceState deleteFailsHandler (Runtime (Some ''vol-e-0''))
        (specOf InstanceStateStopped ''node-b'') runningStatus) = None"
  by (simp add: reconcile_defs deleteFailsHandler_def example_defs)

text \<open>
  C7. Start idempotence: for every call of \<open>ReconcileInstanceState\<close> with
  \<open>spec.DesireState = Running\<close> where the fetched pod exists and has no deletion
  timestamp, no pod creation is issued and \<open>status.Started\<close> is true after the call;
  the same holds for each of any number of cycles under the same observation, so there
  is no second create; and whatever the call, a creation is attempted only when
  \<open>status.CurrentState\<close> is Stopped at its start.
\<close>

theorem C7_start_idempotence:
  assumes "DesireState spec = InstanceStateRunning"
    and "getPodOrNil h nm = Inr (Some p)"
    and "DeletionTimestamp p = None"
  shows "\<not> list_ex isCreate (calls (ReconcileInstanceState h (Runtime (Some nm)) spec status))
       \<and> Started (status_after (ReconcileInstanceState h (Runtime (Some nm)) spec status))
       \<and> (\<forall>r \<in> set (reconcileCycles h (Runtime (Some nm)) n spec status).
             \<not> list_ex isCreate (calls r) \<and> Started (status_after r))
       \<and> (\<forall>h' obj' spec' status'.
             list_ex isCreate (calls (ReconcileInstanceState h' obj' spec' status'))
             \<longrightarrow> CurrentState status' = InstanceStateStopped)"
  using Reconcile_Running_live [OF assms] cycles_Running_live [OF assms] create_only_when_Stopped
  by blast

theorem C7_start_idempotence_witness:
  "list_all (\<lambda>r. \<not> list_ex isCreate (calls r) \<and> Started (status_after r))
     (reconcileCycles liveHandler (Runtime (Some ''vol-e-0'')) (Suc (Suc 0))
        (specOf InstanceStateRunning '''') stoppedStatus)
   \<and> length (reconcileCycles liveHandler (Runtime (Some ''vol-e-0'')) (Suc (Suc 0))
        (specOf InstanceStateRunning '''') stoppedStatus) = 2
   \<and> list_ex isCreate (calls (ReconcileInstanceState emptyHandler (Runtime (Some ''vol-e-0''))
        (specOf InstanceStateRunning '''') stoppedStatus))"
proof -
  have d: "DesireState (specOf InstanceStateRunning '''') = InstanceStateRunning"
    by (simp add: specOf_def)
  have t: "DeletionTimestamp readyPod = None"
    by (simp add: readyPod_def)
  have c: "list_ex isCreate (calls (ReconcileInstanceState emptyHandler (Runtime (Some ''vol-e-0''))
        (specOf InstanceStateRunning '''') stoppedStatus))"
    by (simp add: reconcile_defs example_defs)
  from C7_start_idempotence [OF d getPodOrNil_liveHandler t, of "''vol-e-0''" stoppedStatus "Suc (Suc 0)"] c
  show ?thesis
    by (simp add: list_all_iff Let_def)
qed

lemma Reconcile_Stopped_absent:
  assumes "DesireState spec = InstanceStateStopped"
    and "getPodOrNil h nm = Inr None"
  shows "ReconcileInstanceState h (Runtime (Some nm)) spec status =
     \<lparr>ret = None, spec_after = spec,
      status_after = \<lparr>CurrentState = InstanceStateStopped, Started = False, IP = '''',
                      CurrentImage = '''', NodeBootID = ''''\<rparr>,
      calls = [CallGetPod nm]\<rparr>"
  using assms
  by (simp add: Reconcile_fetched applyDesireState_Stopped_absent syncStatusWithPod_def
      checkAfterSync_def)

lemma cycles_Stopped_absent:
  assumes "DesireState spec = InstanceStateStopped"
    and "getPodOrNil h nm = Inr None"
  shows "r \<in> set (reconcileCycles h (Runtime (Some nm)) n spec status) \<Longrightarrow>
         r = \<lparr>ret = None, spec_after = spec,
              status_after = \<lparr>CurrentState = InstanceStateStopped, Started = False, IP = '''',
                              CurrentImage = '''', NodeBootID = ''''\<rparr>,
              calls = [CallGetPod nm]\<rparr>"
  by (induction n arbitrary: status) (auto simp: Reconcile_Stopped_absent [OF assms] Let_def)

text \<open>
  C8. Stop idempotence: for every call of \<open>ReconcileInstanceState\<close> with
  \<open>spec.DesireState = Stopped\<close> and no pod found, no delete is issued and after the call
  \<open>status.Started\<close> is false and \<open>status.NodeBootID\<close> is empty; each of any number
  of repeated cycles issues no delete either and leaves the very status the first call
  left.
\<close>

theorem C8_stop_idempotence:
  assumes "DesireState spec = InstanceStateStopped"
    and "getPodOrNil h nm = Inr None"
  shows "\<not> list_ex isDelete (calls (ReconcileInstanceState h (Runtime (Some nm)) spec status))
       \<and> \<not> Started (status_after (ReconcileInstanceState h (Runtime (Some nm)) spec status))
       \<and> NodeBootID (status_after (ReconcileInstanceState h (Runtime (Some nm)) spec status)) = ''''
       \<and> (\<forall>r \<in> set (reconcileCycles h (Runtime (Some nm)) n spec status).
             \<not> list_ex isDelete (calls r)
             \<and> \<not> Started (status_after r)
             \<and> NodeBootID (status_after r) = ''''
             \<and> status_after r
                 = status_after (ReconcileInstanceState h (Runtime (Some nm)) spec status))"
proof -
  have "\<not> list_ex isDelete (calls r) \<and> \<not> Started (status_after r)
      \<and> NodeBootID (status_after r) = ''''
      \<and> status_after r = status_after (ReconcileInstanceState h (Runtime (Some nm)) spec status)"
    if "r \<in> set (reconcileCycles h (Runtime (Some nm)) n spec status)" for r
    using cycles_Stopped_absent [OF assms that]
    by (simp add: Reconcile_Stopped_absent [OF assms])
  then show ?thesis
    by (simp add: Reconcile_Stopped_absent [OF assms])
qed

theorem C8_stop_idempotence_witness:
  "list_all (\<lambda>r. \<not> list_ex isDelete (calls r) \<and> \<not> Started (status_after r)
               \<and> NodeBootID (status_after r) = '''')
     (reconcileCycles emptyHandler (Runtime (Some ''vol-e-0'')) (Suc (Suc 0))
        (specOf InstanceStateStopped ''node-b'') runningStatus)
   \<and> length (reconcileCycles emptyHandler (Runtime (Some ''vol-e-0'')) (Suc (Suc 0))
        (specOf InstanceStateStopped ''node-b'') runningStatus) = 2"
proof -
  have d: "DesireState (specOf InstanceStateStopped ''node-b'') = InstanceStateStopped"
    by (simp add: specOf_def)
  from C8_stop_idempotence [OF d getPodOrNil_emptyHandler, of "''vol-e-0''" runningStatus "Suc (Suc 0)"]
  show ?thesis
    by (simp add: list_all_iff Let_def)
qed

text \<open>
  C10. For every call of \<open>ReconcileInstanceState\<close> with \<open>spec.DesireState = Running\<close>
  where the fetched pod exists and has no deletion timestamp, \<open>status.Started\<close> is true
  after the call whatever the phase of the pod: a pod in a phase other than Pending and
  Running (failed, unknown) yields \<open>CurrentState = Error\<close> with \<open>Started\<close> true.
\<close>

theorem C10_started_whatever_the_phase:
  assumes "DesireState spec = InstanceStateRunning"
    and "getPodOrNil h nm = Inr (Some p)"
    and "DeletionTimestamp p = None"
  shows "Started (status_after (ReconcileInstanceState h (Runtime (Some nm)) spec status))
       \<and> (Status_Phase p \<noteq> PodPending \<and> Status_Phase p \<noteq> PodRunning \<longrightarrow>
            CurrentState (status_after (ReconcileInstanceState h (Runtime (Some nm)) spec status))
              = InstanceStateError
            \<and> Started (status_after (ReconcileInstanceState h (Runtime (Some nm)) spec status)))"
proof -
  have started: "Started (status_after (ReconcileInstanceState h (Runtime (Some nm)) spec status))"
    using Reconcile_Running_live [OF assms] by simp
  have "CurrentState (status_after (ReconcileInstanceState h (Runtime (Some nm)) spec status))
      = InstanceStateError"
    if "Status_Phase p \<noteq> PodPending" and "Status_Phase p \<noteq> PodRunning"
    using that assms
    by (cases "Status_Phase p")
      (simp_all add: Reconcile_fetched applyDesireState_Running_live syncStatusWithPod_def
        checkAfterSync_def Let_def)
  with started show ?thesis by simp
qed

theorem C10_started_whatever_the_phase_witness:
  "status_after (ReconcileInstanceState (handlerWith (Inr (readyPod\<lparr>Status_Phase := PodFailed\<rparr>)) None
       (Inr bootedNode)) (Runtime (Some ''vol-e-0'')) (specOf InstanceStateRunning ''node-b'') stoppedStatus)
     = \<lparr>CurrentState = InstanceStateError, Started = True, IP = '''', CurrentImage = '''',
        NodeBootID = ''''\<rparr>"
proof -
  have d: "DesireState (specOf InstanceStateRunning ''node-b'') = InstanceStateRunning"
    by (simp add: specOf_def)
  have g: "getPodOrNil (handlerWith (Inr (readyPod\<lparr>Status_Phase := PodFailed\<rparr>)) None (Inr bootedNode))
      ''vol-e-0'' = Inr (Some (readyPod\<lparr>Status_Phase := PodFailed\<rparr>))"
    by (simp add: getPodOrNil_def getPod_def handlerWith_def)
  have t: "DeletionTimestamp (readyPod\<lparr>Status_Phase := PodFailed\<rparr>) = None"
    by (simp add: readyPod_def)
  from C10_started_whatever_the_phase [OF d g t, of stoppedStatus]
  show ?thesis
    by (simp add: reconcile_defs example_defs)
qed

end
